theory Spec2Isabelle
  imports Complex_Main "HOL-Library.AList"
begin

section \<open>Values and faults\<close>

text \<open>
  The cells of a table read by \<^verbatim>\<open>pd.read_csv\<close> are Python scalars: an integer, a
  float (finite, infinite or NaN), a boolean, or a string. A finite float is modelled by
  the real number it denotes; its comparison with an integer literal is exact in Python,
  so nothing of the rounding of floats enters \<^verbatim>\<open>dp013\<close>.
\<close>

datatype pyval =
    PInt int
  | PFloat real
  | PPosInf
  | PNegInf
  | PNaN
  | PBool bool
  | PStr string

text \<open>
  The faults the script can meet: \<^verbatim>\<open>KeyError\<close> from indexing a missing column,
  \<^verbatim>\<open>TypeError\<close> from comparing a string with an integer, and whatever the object-store
  and warehouse clients raise, which the script neither catches nor inspects.
\<close>

datatype error =
    KeyError string
  | TypeError
  | ServiceError string

section \<open>The transform \<^verbatim>\<open>dp013\<close>\<close>

text \<open>\<^verbatim>\<open>r <= c\<close> for an integer literal \<open>c\<close>.\<close>

fun py_le :: "pyval \<Rightarrow> int \<Rightarrow> error + bool" where
  "py_le (PInt i) c = Inr (i \<le> c)"
| "py_le (PFloat x) c = Inr (x \<le> of_int c)"
| "py_le PPosInf c = Inr False"
| "py_le PNegInf c = Inr True"
| "py_le PNaN c = Inr False"
| "py_le (PBool b) c = Inr ((if b then 1 else 0) \<le> c)"
| "py_le (PStr s) c = Inl TypeError"

text \<open>\<^verbatim>\<open>c < r\<close> for an integer literal \<open>c\<close>.\<close>

fun py_lt :: "int \<Rightarrow> pyval \<Rightarrow> error + bool" where
  "py_lt c (PInt i) = Inr (c < i)"
| "py_lt c (PFloat x) = Inr (of_int c < x)"
| "py_lt c PPosInf = Inr True"
| "py_lt c PNegInf = Inr False"
| "py_lt c PNaN = Inr False"
| "py_lt c (PBool b) = Inr (c < (if b then 1 else 0))"
| "py_lt c (PStr s) = Inl TypeError"

text \<open>
  The chained comparison \<^verbatim>\<open>lo < r <= hi\<close>: the second comparison is evaluated only
  when the first is true.
\<close>

definition py_chain :: "int \<Rightarrow> pyval \<Rightarrow> int \<Rightarrow> error + bool" where
  "py_chain lo r hi =
     (case py_lt lo r of
        Inl e \<Rightarrow> Inl e
      | Inr b \<Rightarrow> if b then py_le r hi else Inr False)"

definition dp013 :: "pyval \<Rightarrow> error + int" where
  "dp013 resolution_time =
     (case py_le resolution_time 1800 of
        Inl e \<Rightarrow> Inl e
      | Inr b1 \<Rightarrow>
          if b1 then Inr 10
          else (case py_chain 1800 resolution_time 7200 of
                  Inl e \<Rightarrow> Inl e
                | Inr b2 \<Rightarrow>
                    if b2 then Inr 7
                    else (case py_chain 7200 resolution_time 10800 of
                            Inl e \<Rightarrow> Inl e
                          | Inr b3 \<Rightarrow> if b3 then Inr 5 else Inr 0)))"

section \<open>Tables\<close>

text \<open>
  A pandas DataFrame: the length of its index and its columns in order, each a name with
  the column's values.
\<close>

record dataframe =
  nrows :: nat
  columns :: "(string \<times> pyval list) list"

text \<open>
  What \<^verbatim>\<open>pd.read_csv\<close> yields: column names are distinct and every column has one value
  per row.
\<close>

definition well_formed :: "dataframe \<Rightarrow> bool" where
  "well_formed df \<longleftrightarrow>
     distinct (map fst (columns df)) \<and>
     list_all (\<lambda>c. length (snd c) = nrows df) (columns df)"

text \<open>\<^verbatim>\<open>df.empty\<close>: some axis has length zero.\<close>

definition df_empty :: "dataframe \<Rightarrow> bool" where
  "df_empty df \<longleftrightarrow> nrows df = 0 \<or> columns df = []"

text \<open>\<^verbatim>\<open>df[name]\<close>\<close>

definition df_getitem :: "dataframe \<Rightarrow> string \<Rightarrow> error + pyval list" where
  "df_getitem df name =
     (case map_of (columns df) name of
        None \<Rightarrow> Inl (KeyError name)
      | Some col \<Rightarrow> Inr col)"

text \<open>
  \<^verbatim>\<open>series.apply(f)\<close>: the function is called on each value in order, and the first fault
  it raises ends the call. On an empty series the function is not called.
\<close>

fun series_apply :: "(pyval \<Rightarrow> error + int) \<Rightarrow> pyval list \<Rightarrow> error + pyval list" where
  "series_apply f [] = Inr []"
| "series_apply f (v # vs) =
     (case f v of
        Inl e \<Rightarrow> Inl e
      | Inr k \<Rightarrow>
          (case series_apply f vs of
             Inl e \<Rightarrow> Inl e
           | Inr ks \<Rightarrow> Inr (PInt k # ks)))"

text \<open>
  \<^verbatim>\<open>df[name] = series\<close>: an existing column is replaced where it stands, a new one is
  appended after the others.
\<close>

definition df_setitem :: "dataframe \<Rightarrow> string \<Rightarrow> pyval list \<Rightarrow> dataframe" where
  "df_setitem df name col = df\<lparr>columns := AList.update name col (columns df)\<rparr>"

text \<open>The transform step of the script: \<^verbatim>\<open>df['DP013'] = df['calendar_duration'].apply(dp013)\<close>\<close>

definition transform :: "dataframe \<Rightarrow> error + dataframe" where
  "transform df =
     (case df_getitem df ''calendar_duration'' of
        Inl e \<Rightarrow> Inl e
      | Inr series \<Rightarrow>
          (case series_apply dp013 series of
             Inl e \<Rightarrow> Inl e
           | Inr scores \<Rightarrow> Inr (df_setitem df ''DP013'' scores)))"

section \<open>The object store and the warehouse\<close>

text \<open>
  The script prints four notices; each is kept with the values it formats.
\<close>

datatype notice =
    FetchedRows nat string string
  | NothingToLoad
  | LoadedRows int string
  | Done bool int

text \<open>
  What the script does to the outside world, in order: a notice printed, or a call into
  the object-store or warehouse client.
\<close>

datatype event =
    Print notice
  | StorageClient
  | DownloadAsBytes string string
  | BigqueryClient string
  | LoadTableFromDataframe dataframe string string
  | JobResult string

definition is_network_call :: "event \<Rightarrow> bool" where
  "is_network_call ev = (case ev of Print n \<Rightarrow> False | _ \<Rightarrow> True)"

definition is_warehouse_call :: "event \<Rightarrow> bool" where
  "is_warehouse_call ev =
     (case ev of
        BigqueryClient p \<Rightarrow> True
      | LoadTableFromDataframe d dest w \<Rightarrow> True
      | JobResult dest \<Rightarrow> True
      | _ \<Rightarrow> False)"

text \<open>
  The object store as the script sees it: constructing the client may raise, and
  downloading and parsing the named object yields a table or raises.
\<close>

record storage =
  storage_client_fault :: "error option"
  download_csv :: "string \<Rightarrow> string \<Rightarrow> error + dataframe"

text \<open>
  The warehouse as the script sees it: each of the three calls may raise, and a finished
  job carries \<^verbatim>\<open>output_rows\<close>, a count or \<^verbatim>\<open>None\<close>.
\<close>

record bigquery =
  client_fault :: "string \<Rightarrow> error option"
  submit_fault :: "dataframe \<Rightarrow> string \<Rightarrow> string \<Rightarrow> error option"
  result_fault :: "dataframe \<Rightarrow> string \<Rightarrow> string \<Rightarrow> error option"
  output_rows :: "dataframe \<Rightarrow> string \<Rightarrow> string \<Rightarrow> nat option"

definition get_data_from_gcs ::
  "storage \<Rightarrow> string \<Rightarrow> string \<Rightarrow> (error + dataframe) \<times> event list" where
  "get_data_from_gcs gcs bucket_name file_name =
     (case storage_client_fault gcs of
        Some e \<Rightarrow> (Inl e, [StorageClient])
      | None \<Rightarrow>
          (case download_csv gcs bucket_name file_name of
             Inl e \<Rightarrow> (Inl e, [StorageClient, DownloadAsBytes bucket_name file_name])
           | Inr df \<Rightarrow>
               (Inr df, [StorageClient, DownloadAsBytes bucket_name file_name,
                         Print (FetchedRows (nrows df) bucket_name file_name)])))"

text \<open>\<^verbatim>\<open>int(load_job.output_rows or len(df))\<close>: a missing or zero count gives way to \<^verbatim>\<open>len(df)\<close>.\<close>

definition rows_loaded :: "nat option \<Rightarrow> dataframe \<Rightarrow> int" where
  "rows_loaded reported df =
     (case reported of
        None \<Rightarrow> int (nrows df)
      | Some n \<Rightarrow> if n = 0 then int (nrows df) else int n)"

definition load_df_to_bq ::
  "bigquery \<Rightarrow> dataframe option \<Rightarrow> string \<Rightarrow> string \<Rightarrow> string \<Rightarrow> string \<Rightarrow>
     (error + bool \<times> int) \<times> event list" where
  "load_df_to_bq bq df project dataset table write_disposition =
     (case df of
        None \<Rightarrow> (Inr (True, 0), [Print NothingToLoad])
      | Some d \<Rightarrow>
          if df_empty d then (Inr (True, 0), [Print NothingToLoad])
          else
            (case client_fault bq project of
               Some e \<Rightarrow> (Inl e, [BigqueryClient project])
             | None \<Rightarrow>
                 (let destination = project @ ''.'' @ dataset @ ''.'' @ table in
                  case submit_fault bq d destination write_disposition of
                    Some e \<Rightarrow>
                      (Inl e, [BigqueryClient project,
                               LoadTableFromDataframe d destination write_disposition])
                  | None \<Rightarrow>
                      (case result_fault bq d destination write_disposition of
                         Some e \<Rightarrow>
                           (Inl e, [BigqueryClient project,
                                    LoadTableFromDataframe d destination write_disposition,
                                    JobResult destination])
                       | None \<Rightarrow>
                           (let rows = rows_loaded (output_rows bq d destination write_disposition) d in
                            (Inr (True, rows),
                             [BigqueryClient project,
                              LoadTableFromDataframe d destination write_disposition,
                              JobResult destination,
                              Print (LoadedRows rows destination)]))))))"

text \<open>The script run as a program, with the names it hard-codes.\<close>

definition BUCKET :: string where "BUCKET = ''test_bucket_shamik''"
definition FILE :: string where "FILE = ''User_Journey.csv''"
definition PROJECT :: string where "PROJECT = ''corded-reality-475215-f8''"
definition DATASET :: string where "DATASET = ''test_dataset''"
definition TABLE :: string where "TABLE = ''test_table3''"

definition main :: "storage \<Rightarrow> bigquery \<Rightarrow> (error + unit) \<times> event list" where
  "main gcs bq =
     (case get_data_from_gcs gcs BUCKET FILE of
        (Inl e, t1) \<Rightarrow> (Inl e, t1)
      | (Inr df, t1) \<Rightarrow>
          (case transform df of
             Inl e \<Rightarrow> (Inl e, t1)
           | Inr df' \<Rightarrow>
               (case load_df_to_bq bq (Some df') PROJECT DATASET TABLE ''WRITE_APPEND'' of
                  (Inl e, t2) \<Rightarrow> (Inl e, t1 @ t2)
                | (Inr (success, rows), t2) \<Rightarrow>
                    (Inr (), t1 @ t2 @ [Print (Done success rows)]))))"

text \<open>A value Python counts as a number: anything but a string.\<close>

definition is_numeric :: "pyval \<Rightarrow> bool" where
  "is_numeric v = (case v of PStr s \<Rightarrow> False | _ \<Rightarrow> True)"

section \<open>Sample tables and services\<close>

text \<open>
  The table of the end-to-end scenario, a table parsed from a file with a header line and
  no rows, a table with no duration column, and one whose duration column holds text.
\<close>

definition scenario_table :: dataframe where
  "scenario_table =
     \<lparr>nrows = 3, columns = [(''calendar_duration'', [PInt 500, PInt 5000, PInt 9000])]\<rparr>"

definition headers_only_table :: dataframe where
  "headers_only_table = \<lparr>nrows = 0, columns = [(''calendar_duration'', [])]\<rparr>"

definition no_duration_table :: dataframe where
  "no_duration_table = \<lparr>nrows = 1, columns = [(''user'', [PStr ''ann''])]\<rparr>"

definition text_duration_table :: dataframe where
  "text_duration_table =
     \<lparr>nrows = 2, columns = [(''calendar_duration'', [PInt 500, PStr ''soon''])]\<rparr>"

text \<open>
  A warehouse on which every call completes and that reports as committed the rows it was
  given, and an object store from which the download and the parse succeed.
\<close>

definition obliging_warehouse :: bigquery where
  "obliging_warehouse =
     \<lparr>client_fault = (\<lambda>p. None),
      submit_fault = (\<lambda>d dest w. None),
      result_fault = (\<lambda>d dest w. None),
      output_rows = (\<lambda>d dest w. Some (nrows d))\<rparr>"

definition storage_holding :: "dataframe \<Rightarrow> storage" where
  "storage_holding df = \<lparr>storage_client_fault = None, download_csv = (\<lambda>b f. Inr df)\<rparr>"

section \<open>The bucketing rule\<close>

lemma dp013_PInt:
  "dp013 (PInt i) = Inr (if i \<le> 1800 then 10 else if i \<le> 7200 then 7 else if i \<le> 10800 then 5 else 0)"
  by (simp add: dp013_def py_chain_def)

lemma dp013_PFloat:
  "dp013 (PFloat x) = Inr (if x \<le> 1800 then 10 else if x \<le> 7200 then 7 else if x \<le> 10800 then 5 else 0)"
  by (simp add: dp013_def py_chain_def)

lemma dp013_PBool: "dp013 (PBool b) = Inr 10"
  by (simp add: dp013_def)

lemma dp013_PNegInf: "dp013 PNegInf = Inr 10"
  by (simp add: dp013_def)

lemma dp013_PPosInf: "dp013 PPosInf = Inr 0"
  by (simp add: dp013_def py_chain_def)

lemma dp013_PNaN: "dp013 PNaN = Inr 0"
  by (simp add: dp013_def py_chain_def)

lemma dp013_PStr: "dp013 (PStr s) = Inl TypeError"
  by (simp add: dp013_def)

text \<open>
  C1. Every integer or finite float \<open>r \<le> 1800\<close>, negative ones included, scores 10, and so
  does negative infinity; in particular \<open>dp013(0) = 10\<close> and \<open>dp013(1800) = 10\<close>.
\<close>

theorem dp013_bucket_10:
  "(\<forall>i. i \<le> 1800 \<longrightarrow> dp013 (PInt i) = Inr 10) \<and>
   (\<forall>x. x \<le> 1800 \<longrightarrow> dp013 (PFloat x) = Inr 10) \<and>
   dp013 PNegInf = Inr 10 \<and>
   dp013 (PInt 0) = Inr 10 \<and> dp013 (PInt 1800) = Inr 10"
  by (simp add: dp013_PInt dp013_PFloat dp013_PNegInf)

theorem dp013_bucket_10_witness:
  "dp013 (PInt (- 42)) = Inr 10 \<and> dp013 (PFloat (1799 + 1 / 2)) = Inr 10"
proof -
  have i: "(- 42 :: int) \<le> 1800" by simp
  have x: "(1799 + 1 / 2 :: real) \<le> 1800" by simp
  from dp013_bucket_10 have "dp013 (PInt (- 42)) = Inr 10" using i by blast
  moreover from dp013_bucket_10 have "dp013 (PFloat (1799 + 1 / 2)) = Inr 10" using x by blast
  ultimately show ?thesis by simp
qed

text \<open>
  C2. Every integer or finite float \<open>r\<close> with \<open>1800 < r \<le> 7200\<close> scores 7; the upper boundary
  is closed: \<open>dp013(1801) = 7\<close> and \<open>dp013(7200) = 7\<close>.
\<close>

theorem dp013_bucket_7:
  "(\<forall>i. 1800 < i \<and> i \<le> 7200 \<longrightarrow> dp013 (PInt i) = Inr 7) \<and>
   (\<forall>x. 1800 < x \<and> x \<le> 7200 \<longrightarrow> dp013 (PFloat x) = Inr 7) \<and>
   dp013 (PInt 1801) = Inr 7 \<and> dp013 (PInt 7200) = Inr 7"
  by (simp add: dp013_PInt dp013_PFloat)

theorem dp013_bucket_7_witness:
  "dp013 (PInt 5000) = Inr 7 \<and> dp013 (PFloat (1800 + 1 / 4)) = Inr 7"
proof -
  have i: "(1800 :: int) < 5000 \<and> (5000 :: int) \<le> 7200" by simp
  have x: "(1800 :: real) < 1800 + 1 / 4 \<and> (1800 + 1 / 4 :: real) \<le> 7200" by simp
  from dp013_bucket_7 have "dp013 (PInt 5000) = Inr 7" using i by blast
  moreover from dp013_bucket_7 have "dp013 (PFloat (1800 + 1 / 4)) = Inr 7" using x by blast
  ultimately show ?thesis by simp
qed

text \<open>
  C3. Every integer or finite float \<open>r\<close> with \<open>7200 < r \<le> 10800\<close> scores 5; the upper
  boundary is closed: \<open>dp013(7201) = 5\<close> and \<open>dp013(10800) = 5\<close>.
\<close>

theorem dp013_bucket_5:
  "(\<forall>i. 7200 < i \<and> i \<le> 10800 \<longrightarrow> dp013 (PInt i) = Inr 5) \<and>
   (\<forall>x. 7200 < x \<and> x \<le> 10800 \<longrightarrow> dp013 (PFloat x) = Inr 5) \<and>
   dp013 (PInt 7201) = Inr 5 \<and> dp013 (PInt 10800) = Inr 5"
  by (simp add: dp013_PInt dp013_PFloat)

theorem dp013_bucket_5_witness:
  "dp013 (PInt 9000) = Inr 5 \<and> dp013 (PFloat (7200 + 1 / 4)) = Inr 5"
proof -
  have i: "(7200 :: int) < 9000 \<and> (9000 :: int) \<le> 10800" by simp
  have x: "(7200 :: real) < 7200 + 1 / 4 \<and> (7200 + 1 / 4 :: real) \<le> 10800" by simp
  from dp013_bucket_5 have "dp013 (PInt 9000) = Inr 5" using i by blast
  moreover from dp013_bucket_5 have "dp013 (PFloat (7200 + 1 / 4)) = Inr 5" using x by blast
  ultimately show ?thesis by simp
qed

text \<open>
  C4. Every integer or finite float \<open>r > 10800\<close> scores 0, and so does positive infinity; in
  particular \<open>dp013(10801) = 0\<close> and \<open>dp013(1000000) = 0\<close>.
\<close>

theorem dp013_bucket_0:
  "(\<forall>i. 10800 < i \<longrightarrow> dp013 (PInt i) = Inr 0) \<and>
   (\<forall>x. 10800 < x \<longrightarrow> dp013 (PFloat x) = Inr 0) \<and>
   dp013 PPosInf = Inr 0 \<and>
   dp013 (PInt 10801) = Inr 0 \<and> dp013 (PInt 1000000) = Inr 0"
  by (simp add: dp013_PInt dp013_PFloat dp013_PPosInf)

theorem dp013_bucket_0_witness:
  "dp013 (PInt 86400) = Inr 0 \<and> dp013 (PFloat (10800 + 1 / 4)) = Inr 0"
proof -
  have i: "(10800 :: int) < 86400" by simp
  have x: "(10800 :: real) < 10800 + 1 / 4" by simp
  from dp013_bucket_0 have "dp013 (PInt 86400) = Inr 0" using i by blast
  moreover from dp013_bucket_0 have "dp013 (PFloat (10800 + 1 / 4)) = Inr 0" using x by blast
  ultimately show ?thesis by simp
qed

section \<open>The transform step\<close>

lemma series_apply_length:
  "series_apply f vs = Inr ks \<Longrightarrow> length ks = length vs"
  by (induction vs arbitrary: ks) (auto split: sum.splits)

lemma series_apply_nth:
  "series_apply f vs = Inr ks \<Longrightarrow> i < length vs \<Longrightarrow> \<exists>k. ks ! i = PInt k \<and> f (vs ! i) = Inr k"
proof (induction vs arbitrary: ks i)
  case Nil
  then show ?case by simp
next
  case (Cons v vs)
  then show ?case
    by (cases i) (auto split: sum.splits)
qed

lemma series_apply_total:
  "list_all (\<lambda>v. \<exists>k. f v = Inr k) vs \<Longrightarrow> \<exists>ks. series_apply f vs = Inr ks"
  by (induction vs) (auto split: sum.splits)

lemma series_apply_fault:
  "series_apply f vs = Inl e \<Longrightarrow> \<exists>v \<in> set vs. f v = Inl e"
  by (induction vs) (auto split: sum.splits)

lemma dp013_range: "dp013 v = Inr k \<Longrightarrow> k \<in> {0, 5, 7, 10}"
  by (cases v) (auto simp: dp013_PInt dp013_PFloat dp013_PBool dp013_PNegInf dp013_PPosInf dp013_PNaN dp013_PStr split: if_splits)

lemma dp013_numeric: "is_numeric v \<Longrightarrow> \<exists>k. dp013 v = Inr k"
  by (cases v) (simp_all add: is_numeric_def dp013_PInt dp013_PFloat dp013_PBool dp013_PNegInf dp013_PPosInf dp013_PNaN)

lemma dp013_fault: "dp013 v = Inl e \<Longrightarrow> e = TypeError \<and> \<not> is_numeric v"
  by (cases v) (simp_all add: is_numeric_def dp013_PInt dp013_PFloat dp013_PBool dp013_PNegInf dp013_PPosInf dp013_PNaN dp013_PStr)

lemma series_apply_dp013_fault:
  "\<not> list_all is_numeric vs \<Longrightarrow> series_apply dp013 vs = Inl TypeError"
proof (induction vs)
  case Nil
  then show ?case by simp
next
  case (Cons v vs)
  show ?case
  proof (cases "is_numeric v")
    case True
    then obtain k where "dp013 v = Inr k" using dp013_numeric by blast
    moreover from True Cons.prems have "\<not> list_all is_numeric vs" by simp
    ultimately show ?thesis using Cons.IH by simp
  next
    case False
    then have "dp013 v = Inl TypeError"
      by (cases v) (simp_all add: is_numeric_def dp013_PStr)
    then show ?thesis by simp
  qed
qed

lemma series_apply_dp013_numeric:
  "list_all is_numeric vs \<Longrightarrow> \<exists>ks. series_apply dp013 vs = Inr ks"
  by (rule series_apply_total) (simp add: list_all_iff dp013_numeric)

lemma column_names_differ: "(''DP013'' :: string) \<noteq> ''calendar_duration''"
  by simp

lemma transform_columns:
  "transform df = Inr df' \<Longrightarrow>
   \<exists>cd dp. map_of (columns df) ''calendar_duration'' = Some cd \<and>
           series_apply dp013 cd = Inr dp \<and>
           df' = df_setitem df ''DP013'' dp"
  by (auto simp: transform_def df_getitem_def split: option.splits sum.splits)

lemma df_setitem_lookup:
  "map_of (columns (df_setitem df name col)) = (map_of (columns df))(name \<mapsto> col)"
  by (simp add: df_setitem_def update_conv')

lemma df_setitem_twice:
  "df_setitem (df_setitem df name col) name col = df_setitem df name col"
  by (simp add: df_setitem_def)

lemma well_formed_column:
  "well_formed df \<Longrightarrow> map_of (columns df) name = Some col \<Longrightarrow> length col = nrows df"
  by (auto simp: well_formed_def list_all_iff dest: map_of_SomeD)

lemma list_all_update:
  "P (k, v) \<Longrightarrow> list_all P al \<Longrightarrow> list_all P (AList.update k v al)"
  by (induction al) auto

lemma df_setitem_well_formed:
  "well_formed df \<Longrightarrow> length col = nrows df \<Longrightarrow> well_formed (df_setitem df name col)"
  by (simp add: well_formed_def df_setitem_def distinct_update list_all_update)

text \<open>
  C5. After the transform step every row has a \<open>DP013\<close> value: the column is present, it
  has one value per row, the value of row \<open>i\<close> is \<open>dp013\<close> of that row's
  \<open>calendar_duration\<close>, which the step leaves as it was, and it is one of 0, 5, 7, 10.
\<close>

theorem transform_DP013:
  assumes "well_formed df" and "transform df = Inr df'"
  shows "\<exists>cd dp.
           map_of (columns df) ''calendar_duration'' = Some cd \<and>
           map_of (columns df') ''calendar_duration'' = Some cd \<and>
           map_of (columns df') ''DP013'' = Some dp \<and>
           well_formed df' \<and>
           nrows df' = nrows df \<and> length cd = nrows df' \<and> length dp = nrows df' \<and>
           (\<forall>i<nrows df'. \<exists>k. dp ! i = PInt k \<and> dp013 (cd ! i) = Inr k \<and> k \<in> {0, 5, 7, 10})"
proof -
  from assms(2) obtain cd dp where
    cd: "map_of (columns df) ''calendar_duration'' = Some cd" and
    dp: "series_apply dp013 cd = Inr dp" and
    df': "df' = df_setitem df ''DP013'' dp"
    using transform_columns by blast
  have n: "nrows df' = nrows df" by (simp add: df' df_setitem_def)
  have lcd: "length cd = nrows df" using assms(1) cd by (rule well_formed_column)
  have ldp: "length dp = length cd" using dp by (rule series_apply_length)
  have cd': "map_of (columns df') ''calendar_duration'' = Some cd"
    by (simp add: df' df_setitem_lookup cd)
  have dp': "map_of (columns df') ''DP013'' = Some dp"
    by (simp add: df' df_setitem_lookup)
  have rows: "\<exists>k. dp ! i = PInt k \<and> dp013 (cd ! i) = Inr k \<and> k \<in> {0, 5, 7, 10}"
    if "i < nrows df'" for i
  proof -
    from that have "i < length cd" by (simp add: n lcd)
    with dp obtain k where k: "dp ! i = PInt k" "dp013 (cd ! i) = Inr k"
      using series_apply_nth by blast
    from k(2) have "k \<in> {0, 5, 7, 10}" by (rule dp013_range)
    with k show ?thesis by blast
  qed
  have wf': "well_formed df'"
    unfolding df' using assms(1) by (rule df_setitem_well_formed) (simp add: ldp lcd)
  from cd cd' dp' wf' n lcd ldp rows show ?thesis by auto
qed

theorem transform_DP013_witness:
  "well_formed scenario_table \<and>
   transform scenario_table =
     Inr \<lparr>nrows = 3,
          columns = [(''calendar_duration'', [PInt 500, PInt 5000, PInt 9000]),
                     (''DP013'', [PInt 10, PInt 7, PInt 5])]\<rparr> \<and>
   (\<exists>cd dp.
      map_of (columns scenario_table) ''calendar_duration'' = Some cd \<and>
      map_of [(''calendar_duration'', [PInt 500, PInt 5000, PInt 9000]),
              (''DP013'', [PInt 10, PInt 7, PInt 5])] ''DP013'' = Some dp \<and>
      length dp = 3 \<and>
      (\<exists>k. dp ! 1 = PInt k \<and> dp013 (cd ! 1) = Inr k \<and> k \<in> {0, 5, 7, 10}))"
proof -
  have wf: "well_formed scenario_table"
    by (simp add: well_formed_def scenario_table_def)
  have tr: "transform scenario_table =
     Inr \<lparr>nrows = 3,
          columns = [(''calendar_duration'', [PInt 500, PInt 5000, PInt 9000]),
                     (''DP013'', [PInt 10, PInt 7, PInt 5])]\<rparr>"
    by (simp add: transform_def df_getitem_def df_setitem_def scenario_table_def dp013_PInt)
  from transform_DP013 [OF wf tr] obtain cd dp where
    "map_of (columns scenario_table) ''calendar_duration'' = Some cd"
    "map_of [(''calendar_duration'', [PInt 500, PInt 5000, PInt 9000]),
              (''DP013'', [PInt 10, PInt 7, PInt 5])] ''DP013'' = Some dp"
    "length dp = 3"
    "\<forall>i<3. \<exists>k. dp ! i = PInt k \<and> dp013 (cd ! i) = Inr k \<and> k \<in> {0, 5, 7, 10}"
    by auto
  moreover from this(4) have "\<exists>k. dp ! 1 = PInt k \<and> dp013 (cd ! 1) = Inr k \<and> k \<in> {0, 5, 7, 10}"
    by simp
  ultimately show ?thesis using wf tr by blast
qed

text \<open>
  C7. The transform is idempotent: applied to its own result it succeeds and returns that
  result unchanged, the \<open>DP013\<close> values with it, and \<open>calendar_duration\<close> is the column
  the first application read.
\<close>

theorem transform_idempotent:
  assumes "transform df = Inr df'"
  shows "transform df' = Inr df' \<and>
         map_of (columns df') ''calendar_duration'' = map_of (columns df) ''calendar_duration''"
proof -
  from assms obtain cd dp where
    cd: "map_of (columns df) ''calendar_duration'' = Some cd" and
    dp: "series_apply dp013 cd = Inr dp" and
    df': "df' = df_setitem df ''DP013'' dp"
    using transform_columns by blast
  have cd': "map_of (columns df') ''calendar_duration'' = Some cd"
    by (simp add: df' df_setitem_lookup cd)
  have "transform df' = Inr (df_setitem df' ''DP013'' dp)"
    by (simp add: transform_def df_getitem_def cd' dp)
  also have "df_setitem df' ''DP013'' dp = df'"
    by (simp add: df' df_setitem_twice)
  finally show ?thesis by (simp add: cd cd')
qed

theorem transform_idempotent_witness:
  "transform scenario_table =
     Inr \<lparr>nrows = 3,
          columns = [(''calendar_duration'', [PInt 500, PInt 5000, PInt 9000]),
                     (''DP013'', [PInt 10, PInt 7, PInt 5])]\<rparr> \<and>
   transform \<lparr>nrows = 3,
          columns = [(''calendar_duration'', [PInt 500, PInt 5000, PInt 9000]),
                     (''DP013'', [PInt 10, PInt 7, PInt 5])]\<rparr> =
     Inr \<lparr>nrows = 3,
          columns = [(''calendar_duration'', [PInt 500, PInt 5000, PInt 9000]),
                     (''DP013'', [PInt 10, PInt 7, PInt 5])]\<rparr>"
proof -
  have tr: "transform scenario_table =
     Inr \<lparr>nrows = 3,
          columns = [(''calendar_duration'', [PInt 500, PInt 5000, PInt 9000]),
                     (''DP013'', [PInt 10, PInt 7, PInt 5])]\<rparr>"
    by (simp add: transform_def df_getitem_def df_setitem_def scenario_table_def dp013_PInt)
  from transform_idempotent [OF tr] tr show ?thesis by simp
qed


section \<open>The load step\<close>

lemma load_df_to_bq_None:
  "load_df_to_bq bq None project dataset table w = (Inr (True, 0), [Print NothingToLoad])"
  by (simp add: load_df_to_bq_def)

lemma load_df_to_bq_empty:
  "df_empty d \<Longrightarrow>
   load_df_to_bq bq (Some d) project dataset table w = (Inr (True, 0), [Print NothingToLoad])"
  by (simp add: load_df_to_bq_def)

lemma load_df_to_bq_completed:
  assumes "\<not> df_empty d"
    and "client_fault bq project = None"
    and "submit_fault bq d (project @ ''.'' @ dataset @ ''.'' @ table) w = None"
    and "result_fault bq d (project @ ''.'' @ dataset @ ''.'' @ table) w = None"
  shows "fst (load_df_to_bq bq (Some d) project dataset table w) =
           Inr (True, rows_loaded (output_rows bq d (project @ ''.'' @ dataset @ ''.'' @ table) w) d)"
  using assms by (simp add: load_df_to_bq_def Let_def)

lemma load_df_to_bq_flag:
  assumes "fst (load_df_to_bq bq df project dataset table w) = Inr (success, rows)"
  shows "success"
proof (cases df)
  case None
  with assms show ?thesis by (simp add: load_df_to_bq_def)
next
  case (Some d)
  with assms show ?thesis
    by (cases "df_empty d"; cases "client_fault bq project";
        cases "submit_fault bq d (project @ ''.'' @ dataset @ ''.'' @ table) w";
        cases "result_fault bq d (project @ ''.'' @ dataset @ ''.'' @ table) w")
       (simp_all add: load_df_to_bq_def Let_def)
qed

text \<open>
  C8. For a missing table and for every empty table \<open>load_df_to_bq\<close> returns
  \<open>(True, 0)\<close>, and all it does is print the notice: no client is constructed and no job
  is submitted or awaited.
\<close>

theorem load_short_circuit:
  assumes "df = None \<or> (\<exists>d. df = Some d \<and> df_empty d)"
  shows "load_df_to_bq bq df project dataset table w = (Inr (True, 0), [Print NothingToLoad]) \<and>
         filter is_network_call (snd (load_df_to_bq bq df project dataset table w)) = []"
proof -
  from assms have "load_df_to_bq bq df project dataset table w = (Inr (True, 0), [Print NothingToLoad])"
    by (auto simp: load_df_to_bq_None load_df_to_bq_empty)
  then show ?thesis by (simp add: is_network_call_def)
qed

theorem load_short_circuit_witness:
  "df_empty headers_only_table \<and>
   load_df_to_bq obliging_warehouse (Some headers_only_table) PROJECT DATASET TABLE ''WRITE_APPEND''
     = (Inr (True, 0), [Print NothingToLoad]) \<and>
   load_df_to_bq obliging_warehouse None PROJECT DATASET TABLE ''WRITE_APPEND''
     = (Inr (True, 0), [Print NothingToLoad])"
proof -
  have e: "df_empty headers_only_table"
    by (simp add: df_empty_def headers_only_table_def)
  then have h: "Some headers_only_table = None \<or> (\<exists>d. Some headers_only_table = Some d \<and> df_empty d)"
    by simp
  have n: "(None :: dataframe option) = None \<or> (\<exists>d. (None :: dataframe option) = Some d \<and> df_empty d)"
    by simp
  from load_short_circuit [OF h] load_short_circuit [OF n] e show ?thesis by blast
qed

text \<open>
  C10. Whenever \<open>load_df_to_bq\<close> returns a pair, for any table and any behaviour of the
  warehouse, the success flag of the pair is \<open>True\<close>.
\<close>

theorem load_flag_always_true:
  assumes "fst (load_df_to_bq bq df project dataset table w) = Inr (success, rows)"
  shows "success = True"
  using load_df_to_bq_flag [OF assms] by simp

theorem load_flag_always_true_witness:
  "fst (load_df_to_bq obliging_warehouse (Some scenario_table) PROJECT DATASET TABLE ''WRITE_APPEND'')
     = Inr (True, 3)"
proof -
  obtain success rows where
    l: "fst (load_df_to_bq obliging_warehouse (Some scenario_table) PROJECT DATASET TABLE ''WRITE_APPEND'')
          = Inr (success, rows)" and r: "rows = 3"
    by (simp add: load_df_to_bq_def Let_def df_empty_def scenario_table_def obliging_warehouse_def
        rows_loaded_def)
  from load_flag_always_true [OF l] have "success = True" .
  with l r show ?thesis by simp
qed

text \<open>
  C6. A table of three rows whose \<open>calendar_duration\<close> values are 500, 5000 and 9000 is
  transformed to \<open>DP013\<close> values 10, 7 and 5, and loading the result reports three rows,
  on a warehouse whose calls complete and whose job reports the rows it was given or no count.
\<close>

theorem scenario_three_rows:
  assumes cd: "map_of (columns df) ''calendar_duration'' = Some [PInt 500, PInt 5000, PInt 9000]"
    and n: "nrows df = 3"
    and client: "client_fault bq project = None"
    and submit: "\<And>d. submit_fault bq d (project @ ''.'' @ dataset @ ''.'' @ table) w = None"
    and result: "\<And>d. result_fault bq d (project @ ''.'' @ dataset @ ''.'' @ table) w = None"
    and count: "\<And>d. output_rows bq d (project @ ''.'' @ dataset @ ''.'' @ table) w = None \<or>
                     output_rows bq d (project @ ''.'' @ dataset @ ''.'' @ table) w = Some (nrows d)"
  shows "\<exists>df'. transform df = Inr df' \<and>
               map_of (columns df') ''DP013'' = Some [PInt 10, PInt 7, PInt 5] \<and>
               fst (load_df_to_bq bq (Some df') project dataset table w) = Inr (True, 3)"
proof -
  define df' where "df' = df_setitem df ''DP013'' [PInt 10, PInt 7, PInt 5]"
  have tr: "transform df = Inr df'"
    by (simp add: transform_def df_getitem_def cd dp013_PInt df'_def)
  have col: "map_of (columns df') ''DP013'' = Some [PInt 10, PInt 7, PInt 5]"
    by (simp add: df'_def df_setitem_lookup)
  have n': "nrows df' = 3" by (simp add: df'_def df_setitem_def n)
  from col have "columns df' \<noteq> []" by auto
  with n' have ne: "\<not> df_empty df'" by (simp add: df_empty_def)
  have "rows_loaded (output_rows bq df' (project @ ''.'' @ dataset @ ''.'' @ table) w) df' = 3"
    using count [of df'] n' by (auto simp: rows_loaded_def)
  with load_df_to_bq_completed [OF ne client submit result]
  have "fst (load_df_to_bq bq (Some df') project dataset table w) = Inr (True, 3)" by simp
  with tr col show ?thesis by blast
qed

theorem scenario_three_rows_witness:
  "map_of (columns scenario_table) ''calendar_duration'' = Some [PInt 500, PInt 5000, PInt 9000] \<and>
   nrows scenario_table = 3 \<and>
   (\<exists>df'. transform scenario_table = Inr df' \<and>
      map_of (columns df') ''DP013'' = Some [PInt 10, PInt 7, PInt 5] \<and>
      fst (load_df_to_bq obliging_warehouse (Some df') PROJECT DATASET TABLE ''WRITE_APPEND'')
        = Inr (True, 3))"
proof -
  have cd: "map_of (columns scenario_table) ''calendar_duration'' = Some [PInt 500, PInt 5000, PInt 9000]"
    by (simp add: scenario_table_def)
  have n: "nrows scenario_table = 3" by (simp add: scenario_table_def)
  have "\<exists>df'. transform scenario_table = Inr df' \<and>
      map_of (columns df') ''DP013'' = Some [PInt 10, PInt 7, PInt 5] \<and>
      fst (load_df_to_bq obliging_warehouse (Some df') PROJECT DATASET TABLE ''WRITE_APPEND'')
        = Inr (True, 3)"
    by (rule scenario_three_rows [OF cd n]) (simp_all add: obliging_warehouse_def)
  with cd n show ?thesis by blast
qed

section \<open>Faults of the transform step\<close>

lemma main_transform_fault:
  assumes "storage_client_fault gcs = None" and "download_csv gcs BUCKET FILE = Inr df"
    and "transform df = Inl e"
  shows "main gcs bq = (Inl e, [StorageClient, DownloadAsBytes BUCKET FILE,
                                 Print (FetchedRows (nrows df) BUCKET FILE)])"
  using assms by (simp add: main_def get_data_from_gcs_def)

text \<open>
  C9. The transform step succeeds when the \<open>calendar_duration\<close> column is present and
  holds numbers only. Without the column it raises \<open>KeyError\<close>; with a value in the
  column that is not a number it raises \<open>TypeError\<close>. Either fault ends the script with
  that fault, before any call to the warehouse.
\<close>

theorem transform_faults:
  "(map_of (columns df) ''calendar_duration'' = None \<longrightarrow>
      transform df = Inl (KeyError ''calendar_duration'')) \<and>
   (\<forall>col. map_of (columns df) ''calendar_duration'' = Some col \<and> list_all is_numeric col \<longrightarrow>
      (\<exists>df'. transform df = Inr df')) \<and>
   (\<forall>col. map_of (columns df) ''calendar_duration'' = Some col \<and> \<not> list_all is_numeric col \<longrightarrow>
      transform df = Inl TypeError) \<and>
   (\<forall>e. storage_client_fault gcs = None \<and> download_csv gcs BUCKET FILE = Inr df \<and>
        transform df = Inl e \<longrightarrow>
      fst (main gcs bq) = Inl e \<and> filter is_warehouse_call (snd (main gcs bq)) = [])"
proof (intro conjI allI impI)
  assume "map_of (columns df) ''calendar_duration'' = None"
  then show "transform df = Inl (KeyError ''calendar_duration'')"
    by (simp add: transform_def df_getitem_def)
next
  fix col
  assume a: "map_of (columns df) ''calendar_duration'' = Some col \<and> list_all is_numeric col"
  then obtain ks where "series_apply dp013 col = Inr ks"
    using series_apply_dp013_numeric by blast
  with a show "\<exists>df'. transform df = Inr df'"
    by (simp add: transform_def df_getitem_def)
next
  fix col
  assume a: "map_of (columns df) ''calendar_duration'' = Some col \<and> \<not> list_all is_numeric col"
  then have "series_apply dp013 col = Inl TypeError"
    by (simp add: series_apply_dp013_fault)
  with a show "transform df = Inl TypeError"
    by (simp add: transform_def df_getitem_def)
next
  fix e
  assume a: "storage_client_fault gcs = None \<and> download_csv gcs BUCKET FILE = Inr df \<and>
        transform df = Inl e"
  then have m: "main gcs bq = (Inl e, [StorageClient, DownloadAsBytes BUCKET FILE,
                                 Print (FetchedRows (nrows df) BUCKET FILE)])"
    by (simp add: main_transform_fault)
  show "fst (main gcs bq) = Inl e" by (simp add: m)
  show "filter is_warehouse_call (snd (main gcs bq)) = []"
    by (simp add: m is_warehouse_call_def)
qed

theorem transform_faults_witness:
  "transform no_duration_table = Inl (KeyError ''calendar_duration'') \<and>
   fst (main (storage_holding no_duration_table) obliging_warehouse)
     = Inl (KeyError ''calendar_duration'') \<and>
   filter is_warehouse_call (snd (main (storage_holding no_duration_table) obliging_warehouse)) = [] \<and>
   transform text_duration_table = Inl TypeError \<and>
   (\<exists>df'. transform scenario_table = Inr df')"
proof -
  have none: "map_of (columns no_duration_table) ''calendar_duration'' = None"
    by (simp add: no_duration_table_def)
  have k: "transform no_duration_table = Inl (KeyError ''calendar_duration'')"
    using transform_faults [of no_duration_table] none by blast
  have st: "storage_client_fault (storage_holding no_duration_table) = None \<and>
        download_csv (storage_holding no_duration_table) BUCKET FILE = Inr no_duration_table"
    by (simp add: storage_holding_def)
  have m: "fst (main (storage_holding no_duration_table) obliging_warehouse)
             = Inl (KeyError ''calendar_duration'') \<and>
           filter is_warehouse_call
             (snd (main (storage_holding no_duration_table) obliging_warehouse)) = []"
    using transform_faults [of no_duration_table "storage_holding no_duration_table" obliging_warehouse]
      st k by blast
  have str: "map_of (columns text_duration_table) ''calendar_duration'' = Some [PInt 500, PStr ''soon'']
             \<and> \<not> list_all is_numeric [PInt 500, PStr ''soon'']"
    by (simp add: text_duration_table_def is_numeric_def)
  have t: "transform text_duration_table = Inl TypeError"
    using transform_faults [of text_duration_table] str by blast
  have num: "map_of (columns scenario_table) ''calendar_duration'' = Some [PInt 500, PInt 5000, PInt 9000]
             \<and> list_all is_numeric [PInt 500, PInt 5000, PInt 9000]"
    by (simp add: scenario_table_def is_numeric_def)
  have s: "\<exists>df'. transform scenario_table = Inr df'"
    using transform_faults [of scenario_table] num by blast
  from k m t s show ?thesis by blast
qed

end
